theory Spec2Isabelle
  imports Main
begin

section \<open>Data model of package dataselect (dataselectquery.go)\<close>

text \<open>
  Go pointers to heap objects are addresses into a typed store; \<open>NilPtr\<close> is Go's
  \<open>nil\<close>.  A value of type \<open>[]string\<close> is either the nil slice or a reference to a
  backing array held in the store, so that what a function does to the caller's
  array is visible in the store it returns.
\<close>

type_synonym addr = nat

datatype ptr = NilPtr | Ptr addr

datatype slice = NilSlice | Slice addr

type_synonym PropertyName = string

record SortBy =
  Property :: PropertyName
  Ascending :: bool

record SortQuery =
  SortByList :: "SortBy list"

text \<open>
  Modelled from the spec: the type \<open>metric.AggregationNames\<close>, which is declared in
  package \<open>metric\<close>.  It is a list of aggregation-function names (section 6); the
  call \<open>NewMetricQuery(nil, nil)\<close> shows that it can be nil (\<open>None\<close>).  The type of
  the names, \<open>'agg\<close>, is left open, and the list is kept by value.
\<close>

record 'agg MetricQuery =
  MetricNames :: slice
  Aggregations :: "'agg list option"

record DataSelectQuery =
  PaginationQuery :: ptr
  SortQuery :: ptr
  MetricQuery :: ptr

text \<open>
  The store: the backing arrays of the \<open>[]string\<close> values, and the objects of each
  struct type of this file, each indexed by address.  Allocation appends, so a new
  address is never one that is already in use.
\<close>

record 'agg Store =
  strings :: "string list list"
  sortQueries :: "SortQuery list"
  metricQueries :: "'agg MetricQuery list"
  dataSelectQueries :: "DataSelectQuery list"

datatype error = IndexOutOfRange | InvalidAddress

text \<open>Reading a slice: the nil slice has no elements; a dangling reference is a fault.\<close>

fun load :: "'agg Store \<Rightarrow> slice \<Rightarrow> string list option" where
  "load s NilSlice = Some []"
| "load s (Slice a) = (if a < length (strings s) then Some (strings s ! a) else None)"

text \<open>Go's \<open>xs[i]\<close>: a run-time panic when the index is out of range.\<close>

definition index :: "'a list \<Rightarrow> nat \<Rightarrow> error + 'a" where
  "index xs i = (if i < length xs then Inr (xs ! i) else Inl IndexOutOfRange)"

text \<open>Taking the address of a composite literal allocates a new object.\<close>

definition alloc_SortQuery :: "SortQuery \<Rightarrow> 'agg Store \<Rightarrow> ptr \<times> 'agg Store" where
  "alloc_SortQuery q s =
     (Ptr (length (sortQueries s)), s\<lparr>sortQueries := sortQueries s @ [q]\<rparr>)"

definition alloc_MetricQuery :: "'agg MetricQuery \<Rightarrow> 'agg Store \<Rightarrow> ptr \<times> 'agg Store" where
  "alloc_MetricQuery q s =
     (Ptr (length (metricQueries s)), s\<lparr>metricQueries := metricQueries s @ [q]\<rparr>)"

definition alloc_DataSelectQuery :: "DataSelectQuery \<Rightarrow> 'agg Store \<Rightarrow> ptr \<times> 'agg Store" where
  "alloc_DataSelectQuery q s =
     (Ptr (length (dataSelectQueries s)), s\<lparr>dataSelectQueries := dataSelectQueries s @ [q]\<rparr>)"

text \<open>A slice literal \<open>[]string{...}\<close> allocates its backing array.\<close>

definition alloc_strings :: "string list \<Rightarrow> 'agg Store \<Rightarrow> slice \<times> 'agg Store" where
  "alloc_strings xs s = (Slice (length (strings s)), s\<lparr>strings := strings s @ [xs]\<rparr>)"

text \<open>Dereferencing: \<open>None\<close> for nil and for an address that holds no object.\<close>

fun deref :: "'a list \<Rightarrow> ptr \<Rightarrow> 'a option" where
  "deref h NilPtr = None"
| "deref h (Ptr a) = (if a < length h then Some (h ! a) else None)"

section \<open>The constructors\<close>

definition NewMetricQuery ::
  "slice \<Rightarrow> 'agg list option \<Rightarrow> 'agg Store \<Rightarrow> ptr \<times> 'agg Store" where
  "NewMetricQuery metricNames aggregations s =
     alloc_MetricQuery \<lparr>MetricNames = metricNames, Aggregations = aggregations\<rparr> s"

definition NewDataSelectQuery :: "ptr \<Rightarrow> ptr \<Rightarrow> ptr \<Rightarrow> 'agg Store \<Rightarrow> ptr \<times> 'agg Store" where
  "NewDataSelectQuery paginationQuery sortQuery graphQuery s =
     alloc_DataSelectQuery
       \<lparr>PaginationQuery = paginationQuery, SortQuery = sortQuery, MetricQuery = graphQuery\<rparr> s"

section \<open>Package-level variables\<close>

text \<open>
  What the file takes from elsewhere: the constants \<open>common.CpuUsage\<close> and
  \<open>common.MemoryUsage\<close>, the variable \<open>metric.OnlySumAggregation\<close>, and the
  variables \<open>NoPagination\<close> and \<open>DefaultPagination\<close>, which another file of this
  package declares.  All five are parameters.
\<close>

record 'agg Imports =
  CpuUsage :: string
  MemoryUsage :: string
  OnlySumAggregation :: "'agg list option"
  NoPagination :: ptr
  DefaultPagination :: ptr

record Globals =
  NoMetrics :: ptr
  StandardMetrics :: ptr
  NoSort :: ptr
  NoDataSelect :: ptr
  StdMetricsDataSelect :: ptr
  DefaultDataSelect :: ptr
  DefaultDataSelectWithMetrics :: ptr

text \<open>
  Package initialisation evaluates the initialisers of the seven variables in
  declaration order (each depends only on earlier ones and on the five values
  above, which are taken to be initialised already).
\<close>

definition initPackage :: "'agg Imports \<Rightarrow> 'agg Store \<Rightarrow> Globals \<times> 'agg Store" where
  "initPackage imp s0 =
     (let (noMetrics, s1) = NewMetricQuery NilSlice None s0;
          (names, s2) = alloc_strings [CpuUsage imp, MemoryUsage imp] s1;
          (standardMetrics, s3) = NewMetricQuery names (OnlySumAggregation imp) s2;
          (noSort, s4) = alloc_SortQuery \<lparr>SortByList = []\<rparr> s3;
          (noDataSelect, s5) = NewDataSelectQuery (NoPagination imp) noSort noMetrics s4;
          (stdMetricsDataSelect, s6) =
             NewDataSelectQuery (NoPagination imp) noSort standardMetrics s5;
          (defaultDataSelect, s7) =
             NewDataSelectQuery (DefaultPagination imp) noSort noMetrics s6;
          (defaultDataSelectWithMetrics, s8) =
             NewDataSelectQuery (DefaultPagination imp) noSort standardMetrics s7
      in (\<lparr>NoMetrics = noMetrics, StandardMetrics = standardMetrics, NoSort = noSort,
           NoDataSelect = noDataSelect, StdMetricsDataSelect = stdMetricsDataSelect,
           DefaultDataSelect = defaultDataSelect,
           DefaultDataSelectWithMetrics = defaultDataSelectWithMetrics\<rparr>, s8))"

section \<open>NewSortQuery\<close>

text \<open>
  The loop \<open>for i := 0; i+1 < len(sortByListRaw); i += 2\<close>, with the list built so
  far.  It ends in one of three ways: a panic (\<open>Inl\<close>), the early
  \<open>return NoSort\<close> (\<open>Inr None\<close>), or by falling through with the finished list.
\<close>

function NewSortQuery_loop ::
  "string list \<Rightarrow> nat \<Rightarrow> SortBy list \<Rightarrow> error + SortBy list option" where
  "NewSortQuery_loop sortByListRaw i sortByList =
     (if i + 1 < length sortByListRaw then
        (case index sortByListRaw i of
           Inl e \<Rightarrow> Inl e
         | Inr orderOption \<Rightarrow>
             (case (if orderOption = ''a'' then Some True
                    else if orderOption = ''d'' then Some False
                    else None) of
                None \<Rightarrow> Inr None
              | Some ascending \<Rightarrow>
                  (case index sortByListRaw (i + 1) of
                     Inl e \<Rightarrow> Inl e
                   | Inr propertyName \<Rightarrow>
                       NewSortQuery_loop sortByListRaw (i + 2)
                         (sortByList @ [\<lparr>Property = propertyName, Ascending = ascending\<rparr>]))))
      else Inr (Some sortByList))"
  by pat_completeness auto
termination
  by (relation "measure (\<lambda>(sortByListRaw, i, sortByList). length sortByListRaw - i)") auto

declare NewSortQuery_loop.simps [simp del]

definition NewSortQuery ::
  "Globals \<Rightarrow> slice \<Rightarrow> 'agg Store \<Rightarrow> error + ptr \<times> 'agg Store" where
  "NewSortQuery g sortByListRaw s =
     (case load s sortByListRaw of
        None \<Rightarrow> Inl InvalidAddress
      | Some raw \<Rightarrow>
          if sortByListRaw = NilSlice \<or> length raw mod 2 = 1 then Inr (NoSort g, s)
          else (case NewSortQuery_loop raw 0 [] of
                  Inl e \<Rightarrow> Inl e
                | Inr None \<Rightarrow> Inr (NoSort g, s)
                | Inr (Some sortByList) \<Rightarrow>
                    Inr (alloc_SortQuery \<lparr>SortByList = sortByList\<rparr> s)))"

text \<open>
  \<open>NoSort\<close> is an ordinary package variable.  This is the state in which package
  initialisation leaves it: it points to a live \<open>SortQuery\<close> with no entries.
\<close>

definition NoSort_intact :: "Globals \<Rightarrow> 'agg Store \<Rightarrow> bool" where
  "NoSort_intact g s = (deref (sortQueries s) (NoSort g) = Some \<lparr>SortByList = []\<rparr>)"

text \<open>
  The \<open>SortBy\<close> list the doc comment of \<open>NewSortQuery\<close> describes for a list of
  direction/property tokens: entry \<open>k\<close> is read off the tokens \<open>2k\<close> and \<open>2k+1\<close>.
\<close>

definition pairsOf :: "string list \<Rightarrow> SortBy list" where
  "pairsOf toks =
     map (\<lambda>k. \<lparr>Property = toks ! (2 * k + 1), Ascending = (toks ! (2 * k) = ''a'')\<rparr>)
       [0 ..< length toks div 2]"

text \<open>Every token at an even index is a direction code.\<close>

definition directionsOk :: "string list \<Rightarrow> bool" where
  "directionsOk toks =
     list_all (\<lambda>i. odd i \<or> toks ! i = ''a'' \<or> toks ! i = ''d'') [0 ..< length toks]"

text \<open>The flat token list of a list of (direction, property) pairs.\<close>

fun flatten :: "(string \<times> string) list \<Rightarrow> string list" where
  "flatten [] = []"
| "flatten ((d, p) # ps) = d # p # flatten ps"

section \<open>Comparing results by structure\<close>

text \<open>
  What an object looks like to a reader who follows its references: a slice is
  seen as nil or not together with its elements, a pointer as the object it points
  to.  The \<open>PaginationQuery\<close> objects are not kept in this store, so that field is
  seen as the pointer itself.
\<close>

definition viewSlice :: "'agg Store \<Rightarrow> slice \<Rightarrow> bool \<times> string list option" where
  "viewSlice s sl = (sl = NilSlice, load s sl)"

definition viewSortQuery :: "'agg Store \<Rightarrow> ptr \<Rightarrow> SortBy list option" where
  "viewSortQuery s p = map_option SortByList (deref (sortQueries s) p)"

definition viewMetricQuery ::
  "'agg Store \<Rightarrow> ptr \<Rightarrow> ((bool \<times> string list option) \<times> 'agg list option) option" where
  "viewMetricQuery s p =
     map_option (\<lambda>q. (viewSlice s (MetricNames q), Aggregations q)) (deref (metricQueries s) p)"

definition viewDataSelectQuery ::
  "'agg Store \<Rightarrow> ptr \<Rightarrow>
   (ptr \<times> SortBy list option \<times> ((bool \<times> string list option) \<times> 'agg list option) option) option"
  where
  "viewDataSelectQuery s p =
     map_option
       (\<lambda>q. (PaginationQuery q, viewSortQuery s (SortQuery q), viewMetricQuery s (MetricQuery q)))
       (deref (dataSelectQueries s) p)"

text \<open>
  The only difference between two stores is that the second may hold more
  objects: every array is as it was, and so is every object that was there.
\<close>

definition onlyAllocates :: "'agg Store \<Rightarrow> 'agg Store \<Rightarrow> bool" where
  "onlyAllocates s s' =
     (strings s' = strings s
      \<and> take (length (sortQueries s)) (sortQueries s') = sortQueries s
      \<and> take (length (metricQueries s)) (metricQueries s') = metricQueries s
      \<and> take (length (dataSelectQueries s)) (dataSelectQueries s') = dataSelectQueries s)"

section \<open>The pagination stage\<close>

text \<open>
  Modelled from the spec: the type \<open>PaginationQuery\<close> and the pagination stage
  (section 4.3), which another file of the package implements.  The window is
  \<open>sequence[startIndex:endIndex]\<close> with \<open>startIndex = (page-1) * itemsPerPage\<close> and
  \<open>endIndex = min(startIndex + itemsPerPage, totalItems)\<close>; a slice expression whose
  bounds are out of range fails.
\<close>

text \<open>
  Modelled from the spec: the type \<open>PaginationQuery\<close> of the pagination stage
  (section 3): the items per page and the 1-based page.
\<close>

record PaginationQuery =
  itemsPerPage :: int
  page :: int

datatype stage_error = SliceBoundsOutOfRange

text \<open>
  Modelled from the spec: the slice expression \<open>sequence[lo:hi]\<close> of section 4.3,
  part of the pagination stage; out-of-range bounds are a failure.
\<close>

definition sliceOf :: "'a list \<Rightarrow> int \<Rightarrow> int \<Rightarrow> stage_error + 'a list" where
  "sliceOf xs lo hi =
     (if 0 \<le> lo \<and> lo \<le> hi \<and> hi \<le> int (length xs)
      then Inr (take (nat (hi - lo)) (drop (nat lo) xs))
      else Inl SliceBoundsOutOfRange)"

text \<open>
  Modelled from the spec: the pagination stage itself (section 4.3); it returns the
  page together with \<open>totalItems\<close>.
\<close>

definition paginate :: "'a list \<Rightarrow> PaginationQuery \<Rightarrow> stage_error + ('a list \<times> int)" where
  "paginate sequence pq =
     (let totalItems = int (length sequence) in
      if itemsPerPage pq = 0 then Inr (sequence, totalItems)
      else
        (let startIndex = (page pq - 1) * itemsPerPage pq in
         if startIndex \<ge> totalItems then Inr ([], totalItems)
         else
           (let endIndex = min (startIndex + itemsPerPage pq) totalItems in
            case sliceOf sequence startIndex endIndex of
              Inl e \<Rightarrow> Inl e
            | Inr items \<Rightarrow> Inr (items, totalItems))))"

section \<open>The sort stage\<close>

text \<open>
  Modelled from the spec: the property extraction contract (section 4.1) and the
  sort stage (section 4.2), which another file of the package implements.  An
  item answers a property identifier with a value or with not-found (\<open>None\<close>);
  values are of a linearly ordered type.  One \<open>SortBy\<close> compares two items by that
  property, negated when \<open>Ascending\<close> is false, and not-found sorts after every
  found value in either direction.  The composite comparator takes the entries in
  list order and returns the first result that is not zero.  The sort is a single
  stable pass with that comparator (here: insertion, each item placed before the
  first item it does not come after); an empty \<open>SortQuery\<close> is the identity pass.
\<close>

text \<open>
  Modelled from the spec: the comparison by one \<open>SortBy\<close> entry (sections 4.1, 4.2),
  part of the sort stage: negative when the first item comes first.
\<close>

definition compareBy ::
  "('i \<Rightarrow> PropertyName \<Rightarrow> 'v::linorder option) \<Rightarrow> SortBy \<Rightarrow> 'i \<Rightarrow> 'i \<Rightarrow> int" where
  "compareBy propertyValue sb x y =
     (case (propertyValue x (Property sb), propertyValue y (Property sb)) of
        (None, None) \<Rightarrow> 0
      | (None, Some b) \<Rightarrow> 1
      | (Some a, None) \<Rightarrow> - 1
      | (Some a, Some b) \<Rightarrow>
          (let c = (if a < b then - 1 else if b < a then 1 else 0)
           in if Ascending sb then c else - c))"

text \<open>
  Modelled from the spec: the composite comparator of the sort stage (section 4.2).
\<close>

fun compareAll ::
  "('i \<Rightarrow> PropertyName \<Rightarrow> 'v::linorder option) \<Rightarrow> SortBy list \<Rightarrow> 'i \<Rightarrow> 'i \<Rightarrow> int" where
  "compareAll propertyValue [] x y = 0"
| "compareAll propertyValue (sb # sbs) x y =
     (let c = compareBy propertyValue sb x y
      in if c \<noteq> 0 then c else compareAll propertyValue sbs x y)"

text \<open>
  Modelled from the spec: the stable sort pass of the sort stage (section 4.2), as
  insertion from the right: an item goes before the first item it does not come
  after, so it stays in front of the later items it ties with.
\<close>

fun insertItem :: "('i \<Rightarrow> 'i \<Rightarrow> int) \<Rightarrow> 'i \<Rightarrow> 'i list \<Rightarrow> 'i list" where
  "insertItem cmp x [] = [x]"
| "insertItem cmp x (y # ys) =
     (if cmp x y \<le> 0 then x # y # ys else y # insertItem cmp x ys)"

text \<open>
  Modelled from the spec: the stable sort pass of the sort stage (section 4.2).
\<close>

fun stableSort :: "('i \<Rightarrow> 'i \<Rightarrow> int) \<Rightarrow> 'i list \<Rightarrow> 'i list" where
  "stableSort cmp [] = []"
| "stableSort cmp (x # xs) = insertItem cmp x (stableSort cmp xs)"

text \<open>
  Modelled from the spec: the sort stage (section 4.2), with the identity pass for
  the empty \<open>SortQuery\<close>.
\<close>

definition sortStage ::
  "('i \<Rightarrow> PropertyName \<Rightarrow> 'v::linorder option) \<Rightarrow> 'i list \<Rightarrow> SortQuery \<Rightarrow> 'i list" where
  "sortStage propertyValue items q =
     (if SortByList q = [] then items
      else stableSort (compareAll propertyValue (SortByList q)) items)"

text \<open>
  Modelled from the spec: "equal under every active SortBy" (section 8), for the
  sort stage: two items compare equal under every entry of the query.
\<close>

definition equalUnderAll ::
  "('i \<Rightarrow> PropertyName \<Rightarrow> 'v::linorder option) \<Rightarrow> SortQuery \<Rightarrow> 'i \<Rightarrow> 'i \<Rightarrow> bool" where
  "equalUnderAll propertyValue q x y =
     list_all (\<lambda>sb. compareBy propertyValue sb x y = 0) (SortByList q)"

section \<open>The metric query stage\<close>

text \<open>
  Modelled from the spec: the metric query stage (section 4.4), which another file
  of the package implements.  With no metric names it short-circuits to an
  empty result and makes no external call.  Otherwise it asks the external
  collaborator \<open>fetchSeries\<close> (fallible) for the raw series of the items, and for
  each metric and each requested aggregation (sum when none is requested) reduces
  the items' series with the function the registry has for that aggregation.  A
  failed fetch is reported as metrics-unavailable.  The second component of the
  result lists the external calls made.
\<close>

text \<open>
  Modelled from the spec: the metrics portion of the result of the metric stage
  (sections 4.4, 7): the aggregated metrics, or metrics-unavailable.
\<close>

datatype 'r MetricsOutcome = Metrics 'r | MetricsUnavailable

text \<open>
  Modelled from the spec: the metric query stage itself (section 4.4).
\<close>

definition metricStage ::
  "('i list \<Rightarrow> string list \<Rightarrow> ('i \<Rightarrow> string \<Rightarrow> 'series) option) \<Rightarrow>
   ('agg \<Rightarrow> 'series list \<Rightarrow> 'series) \<Rightarrow> 'agg \<Rightarrow>
   'i list \<Rightarrow> string list \<Rightarrow> 'agg list \<Rightarrow>
   (string \<times> 'agg \<times> 'series) list MetricsOutcome \<times> ('i list \<times> string list) list" where
  "metricStage fetchSeries registry sumAggregation items metricNames aggregations =
     (if metricNames = [] then (Metrics [], [])
      else
        (let aggs = (if aggregations = [] then [sumAggregation] else aggregations) in
         case fetchSeries items metricNames of
           None \<Rightarrow> (MetricsUnavailable, [(items, metricNames)])
         | Some raw \<Rightarrow>
             (Metrics
                (concat (map (\<lambda>m. map (\<lambda>a. (m, a, registry a (map (\<lambda>i. raw i m) items))) aggs)
                   metricNames)),
              [(items, metricNames)])))"

text \<open>
  Modelled from the spec: the metric query stage (section 4.4) run on a
  \<open>MetricQuery\<close> object of the store.
\<close>

definition runMetricQuery ::
  "('i list \<Rightarrow> string list \<Rightarrow> ('i \<Rightarrow> string \<Rightarrow> 'series) option) \<Rightarrow>
   ('agg \<Rightarrow> 'series list \<Rightarrow> 'series) \<Rightarrow> 'agg \<Rightarrow>
   'agg Store \<Rightarrow> 'i list \<Rightarrow> ptr \<Rightarrow>
   error + (string \<times> 'agg \<times> 'series) list MetricsOutcome \<times> ('i list \<times> string list) list" where
  "runMetricQuery fetchSeries registry sumAggregation s items mq =
     (case deref (metricQueries s) mq of
        None \<Rightarrow> Inl InvalidAddress
      | Some q \<Rightarrow>
          (case load s (MetricNames q) of
             None \<Rightarrow> Inl InvalidAddress
           | Some metricNames \<Rightarrow>
               Inr (metricStage fetchSeries registry sumAggregation items metricNames
                      (case Aggregations q of None \<Rightarrow> [] | Some aggs \<Rightarrow> aggs))))"

section \<open>A concrete program state\<close>

text \<open>
  The state after package initialisation from an empty store, with sample values
  for the imported constants, and the same state with one more token array.
\<close>

definition sampleImports :: "string Imports" where
  "sampleImports =
     \<lparr>CpuUsage = ''cpu usage'', MemoryUsage = ''memory usage'',
      OnlySumAggregation = Some [''sum''], NoPagination = Ptr 0, DefaultPagination = Ptr 1\<rparr>"

definition emptyStore :: "string Store" where
  "emptyStore = \<lparr>strings = [], sortQueries = [], metricQueries = [], dataSelectQueries = []\<rparr>"

definition sampleGlobals :: Globals where
  "sampleGlobals = fst (initPackage sampleImports emptyStore)"

definition sampleStore :: "string Store" where
  "sampleStore = snd (initPackage sampleImports emptyStore)"

definition otherStore :: "string Store" where
  "otherStore =
     snd (alloc_strings [''a'', ''name'', ''d'', ''age'']
            (snd (alloc_strings [''memory usage''] sampleStore)))"

text \<open>Sample items for the sort stage: pairs of numbers, known by the properties x and y.\<close>

definition sampleProperty :: "nat \<times> nat \<Rightarrow> PropertyName \<Rightarrow> nat option" where
  "sampleProperty item name =
     (if name = ''x'' then Some (fst item)
      else if name = ''y'' then Some (snd item)
      else None)"

definition withTokens :: "string list \<Rightarrow> string Store" where
  "withTokens toks = snd (alloc_strings toks sampleStore)"

section \<open>Properties of the parsing loop\<close>

lemma NewSortQuery_loop_no_panic: "\<exists>r. NewSortQuery_loop raw i acc = Inr r"
proof (induction raw i acc rule: NewSortQuery_loop.induct)
  case (1 raw i acc)
  show ?case
  proof (cases "i + 1 < length raw")
    case True
    show ?thesis
    proof (cases "raw ! i = ''a'' \<or> raw ! i = ''d''")
      case dir: True
      let ?asc = "raw ! i = ''a''"
      have asc: "(if raw ! i = ''a'' then Some True else if raw ! i = ''d'' then Some False else None) = Some ?asc"
        using dir by auto
      have "\<exists>r. NewSortQuery_loop raw (i + 2) (acc @ [\<lparr>Property = raw ! (i + 1), Ascending = ?asc\<rparr>]) = Inr r"
        by (rule 1[OF True, of "raw ! i" ?asc "raw ! (i + 1)"]) (use True asc in \<open>auto simp: index_def\<close>)
      then show ?thesis
        using True asc by (subst NewSortQuery_loop.simps) (simp add: index_def)
    next
      case False
      then show ?thesis
        using True by (subst NewSortQuery_loop.simps) (simp add: index_def)
    qed
  next
    case False
    then show ?thesis by (subst NewSortQuery_loop.simps) simp
  qed
qed

lemma NewSortQuery_loop_bad_direction:
  "even i \<Longrightarrow> even j \<Longrightarrow> i \<le> j \<Longrightarrow> j + 1 < length raw \<Longrightarrow>
   raw ! j \<noteq> ''a'' \<Longrightarrow> raw ! j \<noteq> ''d'' \<Longrightarrow> NewSortQuery_loop raw i acc = Inr None"
proof (induction raw i acc rule: NewSortQuery_loop.induct)
  case (1 raw i acc)
  have lt: "i + 1 < length raw" using 1(4,5) by simp
  show ?case
  proof (cases "raw ! i = ''a'' \<or> raw ! i = ''d''")
    case dir: True
    let ?asc = "raw ! i = ''a''"
    have asc: "(if raw ! i = ''a'' then Some True else if raw ! i = ''d'' then Some False else None) = Some ?asc"
      using dir by auto
    have "i \<noteq> j" using dir 1(6,7) by auto
    then have le: "i + 2 \<le> j" using 1(2,3,4) by presburger
    have "NewSortQuery_loop raw (i + 2) (acc @ [\<lparr>Property = raw ! (i + 1), Ascending = ?asc\<rparr>]) = Inr None"
      by (rule 1(1)[OF lt, of "raw ! i" ?asc "raw ! (i + 1)"])
         (use lt asc le 1(2,3,5,6,7) in \<open>auto simp: index_def\<close>)
    then show ?thesis
      using lt asc by (subst NewSortQuery_loop.simps) (simp add: index_def)
  next
    case False
    then show ?thesis
      using lt by (subst NewSortQuery_loop.simps) (simp add: index_def)
  qed
qed


lemma NewSortQuery_loop_wellformed:
  "even i \<Longrightarrow> even (length raw) \<Longrightarrow>
   \<forall>j. even j \<and> i \<le> j \<and> j < length raw \<longrightarrow> raw ! j = ''a'' \<or> raw ! j = ''d'' \<Longrightarrow>
   NewSortQuery_loop raw i acc =
     Inr (Some (acc @ map (\<lambda>k. \<lparr>Property = raw ! (2 * k + 1), Ascending = (raw ! (2 * k) = ''a'')\<rparr>)
                        [i div 2 ..< length raw div 2]))"
proof (induction raw i acc rule: NewSortQuery_loop.induct)
  case (1 raw i acc)
  show ?case
  proof (cases "i + 1 < length raw")
    case True
    then have il: "i < length raw" by simp
    have dir: "raw ! i = ''a'' \<or> raw ! i = ''d''" using 1(2,4) il by blast
    have lt: "i div 2 < length raw div 2" using True 1(2,3) by presburger
    have upt: "[i div 2 ..< length raw div 2] = i div 2 # [(i + 2) div 2 ..< length raw div 2]"
      using lt by (simp add: upt_conv_Cons)
    have twice: "2 * (i div 2) = i" using 1(2) by simp
    let ?asc = "raw ! i = ''a''"
    have asc: "(if raw ! i = ''a'' then Some True else if raw ! i = ''d'' then Some False else None) = Some ?asc"
      using dir by auto
    have IH: "NewSortQuery_loop raw (i + 2) (acc @ [\<lparr>Property = raw ! (i + 1), Ascending = ?asc\<rparr>]) =
      Inr (Some ((acc @ [\<lparr>Property = raw ! (i + 1), Ascending = ?asc\<rparr>]) @ map (\<lambda>k. \<lparr>Property = raw ! (2 * k + 1), Ascending = (raw ! (2 * k) = ''a'')\<rparr>) [(i + 2) div 2 ..< length raw div 2]))"
      by (rule 1(1)[OF True, of "raw ! i" ?asc "raw ! (i+1)"])
         (use True il asc 1(2,3,4) in \<open>auto simp: index_def\<close>)
    show ?thesis
      using True il asc IH upt twice
      by (subst NewSortQuery_loop.simps) (simp add: index_def)
  next
    case False
    then have "length raw div 2 \<le> i div 2" using 1(2,3) by presburger
    then show ?thesis using False by (subst NewSortQuery_loop.simps) simp
  qed
qed

lemma directionsOk_nth:
  "directionsOk toks \<Longrightarrow> even j \<Longrightarrow> j < length toks \<Longrightarrow> toks ! j = ''a'' \<or> toks ! j = ''d''"
  by (auto simp: directionsOk_def list_all_iff)

lemma NewSortQuery_loop_pairsOf:
  assumes "even (length toks)" "directionsOk toks"
  shows "NewSortQuery_loop toks 0 [] = Inr (Some (pairsOf toks))"
  using NewSortQuery_loop_wellformed[of 0 toks "[]"] assms directionsOk_nth[OF assms(2)]
  by (simp add: pairsOf_def)

lemma NewSortQuery_loop_flatten:
  "\<forall>(d, p) \<in> set pairs. d = ''a'' \<or> d = ''d'' \<Longrightarrow>
   NewSortQuery_loop (pre @ flatten pairs) (length pre) acc =
     Inr (Some (acc @ map (\<lambda>(d, p). \<lparr>Property = p, Ascending = (d = ''a'')\<rparr>) pairs))"
proof (induction pairs arbitrary: pre acc)
  case Nil
  show ?case by (subst NewSortQuery_loop.simps) simp
next
  case (Cons dp pairs)
  obtain d p where dp: "dp = (d, p)" by (cases dp)
  have dir: "d = ''a'' \<or> d = ''d''" using Cons.prems dp by auto
  have rest: "\<forall>(d, p) \<in> set pairs. d = ''a'' \<or> d = ''d''" using Cons.prems by auto
  have asc: "(if d = ''a'' then Some True else if d = ''d'' then Some False else None) = Some (d = ''a'')"
    using dir by auto
  have IH: "NewSortQuery_loop ((pre @ [d, p]) @ flatten pairs) (length (pre @ [d, p]))
              (acc @ [\<lparr>Property = p, Ascending = (d = ''a'')\<rparr>]) =
            Inr (Some ((acc @ [\<lparr>Property = p, Ascending = (d = ''a'')\<rparr>]) @
                 map (\<lambda>(d, p). \<lparr>Property = p, Ascending = (d = ''a'')\<rparr>) pairs))"
    by (rule Cons.IH[OF rest])
  have n0: "(pre @ d # p # flatten pairs) ! length pre = d" by simp
  have n1: "(pre @ d # p # flatten pairs) ! Suc (length pre) = p"
    by (simp add: nth_append)
  show ?case
    using IH asc n0 n1 dp
    by (subst NewSortQuery_loop.simps) (simp add: index_def)
qed

section \<open>The concrete program state, evaluated\<close>

lemma sampleInit:
  "initPackage sampleImports emptyStore =
     (\<lparr>NoMetrics = Ptr 0, StandardMetrics = Ptr 1, NoSort = Ptr 0, NoDataSelect = Ptr 0,
       StdMetricsDataSelect = Ptr 1, DefaultDataSelect = Ptr 2,
       DefaultDataSelectWithMetrics = Ptr 3\<rparr>,
      \<lparr>strings = [[''cpu usage'', ''memory usage'']],
       sortQueries = [\<lparr>SortByList = []\<rparr>],
       metricQueries =
         [\<lparr>MetricNames = NilSlice, Aggregations = None\<rparr>,
          \<lparr>MetricNames = Slice 0, Aggregations = Some [''sum'']\<rparr>],
       dataSelectQueries =
         [\<lparr>PaginationQuery = Ptr 0, SortQuery = Ptr 0, MetricQuery = Ptr 0\<rparr>,
          \<lparr>PaginationQuery = Ptr 0, SortQuery = Ptr 0, MetricQuery = Ptr 1\<rparr>,
          \<lparr>PaginationQuery = Ptr 1, SortQuery = Ptr 0, MetricQuery = Ptr 0\<rparr>,
          \<lparr>PaginationQuery = Ptr 1, SortQuery = Ptr 0, MetricQuery = Ptr 1\<rparr>]\<rparr>)"
  by (simp add: initPackage_def sampleImports_def emptyStore_def NewMetricQuery_def
      NewDataSelectQuery_def alloc_MetricQuery_def alloc_DataSelectQuery_def
      alloc_SortQuery_def alloc_strings_def)

lemma sample_NoSort: "NoSort sampleGlobals = Ptr 0"
  by (simp add: sampleGlobals_def sampleInit)

lemma withTokens_strings: "strings (withTokens toks) = [[''cpu usage'', ''memory usage''], toks]"
  by (simp add: withTokens_def sampleStore_def sampleInit alloc_strings_def)

lemma withTokens_sortQueries: "sortQueries (withTokens toks) = [\<lparr>SortByList = []\<rparr>]"
  by (simp add: withTokens_def sampleStore_def sampleInit alloc_strings_def)

lemma withTokens_load: "load (withTokens toks) (Slice 1) = Some toks"
  by (simp add: withTokens_strings)

lemma withTokens_intact: "NoSort_intact sampleGlobals (withTokens toks)"
  by (simp add: NoSort_intact_def sample_NoSort withTokens_sortQueries)

lemma initPackage_NoSort_intact:
  "NoSort_intact (fst (initPackage imp s0)) (snd (initPackage imp s0))"
  by (simp add: initPackage_def NoSort_intact_def NewMetricQuery_def NewDataSelectQuery_def
      alloc_MetricQuery_def alloc_DataSelectQuery_def alloc_SortQuery_def alloc_strings_def
      split_def Let_def)

section \<open>The token parser\<close>

text \<open>
  Claim C1.  For a non-nil token list of even length in which every token at an
  even index is \<open>"a"\<close> or \<open>"d"\<close>, \<open>NewSortQuery\<close> returns (without error) a new
  \<open>SortQuery\<close> whose \<open>SortByList\<close> has half as many entries as there are tokens;
  entry \<open>k\<close> has the token at index \<open>2k+1\<close> as \<open>Property\<close> and is ascending exactly
  when the token at index \<open>2k\<close> is \<open>"a"\<close>, in input order.
\<close>

theorem NewSortQuery_parses_pairs:
  assumes "load s (Slice a) = Some toks" and "even (length toks)" and "directionsOk toks"
  shows "NewSortQuery g (Slice a) s =
           Inr (Ptr (length (sortQueries s)),
                s\<lparr>sortQueries := sortQueries s @ [\<lparr>SortByList = pairsOf toks\<rparr>]\<rparr>)
         \<and> 2 * length (pairsOf toks) = length toks
         \<and> (\<forall>k < length (pairsOf toks).
               Property (pairsOf toks ! k) = toks ! (2 * k + 1)
             \<and> Ascending (pairsOf toks ! k) = (toks ! (2 * k) = ''a''))"
proof -
  have "NewSortQuery g (Slice a) s =
           Inr (Ptr (length (sortQueries s)),
                s\<lparr>sortQueries := sortQueries s @ [\<lparr>SortByList = pairsOf toks\<rparr>]\<rparr>)"
    using assms NewSortQuery_loop_pairsOf[OF assms(2,3)]
    by (simp add: NewSortQuery_def alloc_SortQuery_def)
  moreover have "2 * length (pairsOf toks) = length toks"
    using assms(2) by (simp add: pairsOf_def)
  moreover have "\<forall>k < length (pairsOf toks).
               Property (pairsOf toks ! k) = toks ! (2 * k + 1)
             \<and> Ascending (pairsOf toks ! k) = (toks ! (2 * k) = ''a'')"
    by (simp add: pairsOf_def)
  ultimately show ?thesis by blast
qed

theorem NewSortQuery_parses_pairs_witness:
  "load (withTokens [''a'', ''name'', ''d'', ''age'']) (Slice 1) = Some [''a'', ''name'', ''d'', ''age'']
   \<and> even (length [''a'', ''name'', ''d'', ''age''])
   \<and> directionsOk [''a'', ''name'', ''d'', ''age'']
   \<and> NewSortQuery sampleGlobals (Slice 1) (withTokens [''a'', ''name'', ''d'', ''age'']) =
       Inr (Ptr 1,
            (withTokens [''a'', ''name'', ''d'', ''age''])
              \<lparr>sortQueries :=
                 [\<lparr>SortByList = []\<rparr>,
                  \<lparr>SortByList = [\<lparr>Property = ''name'', Ascending = True\<rparr>,
                                 \<lparr>Property = ''age'', Ascending = False\<rparr>]\<rparr>]\<rparr>)"
proof -
  let ?toks = "[''a'', ''name'', ''d'', ''age'']"
  have h1: "load (withTokens ?toks) (Slice 1) = Some ?toks" by (rule withTokens_load)
  have h2: "even (length ?toks)" by simp
  have up: "[0 ..< 4] = [0, 1, 2, 3]" by (simp add: upt_rec)
  have h3: "directionsOk ?toks" by (simp add: directionsOk_def up)
  have up2: "[0 ..< 2] = [0, 1]" by (simp add: upt_rec)
  have p: "pairsOf ?toks = [\<lparr>Property = ''name'', Ascending = True\<rparr>,
                            \<lparr>Property = ''age'', Ascending = False\<rparr>]"
    by (simp add: pairsOf_def up2)
  show ?thesis
    using h1 h2 h3 NewSortQuery_parses_pairs[OF h1 h2 h3, of sampleGlobals]
    by (simp add: p withTokens_sortQueries)
qed

text \<open>
  Claim C2.  For the nil token list and for every token list of odd length,
  \<open>NewSortQuery\<close> returns the pointer held in \<open>NoSort\<close>, allocates nothing and
  raises no error.  \<open>NoSort\<close>, as package initialisation leaves it, is a
  \<open>SortQuery\<close> whose \<open>SortByList\<close> is empty.
\<close>

theorem NewSortQuery_nil_or_odd:
  assumes "load s sortByListRaw = Some toks"
    and "sortByListRaw = NilSlice \<or> odd (length toks)"
  shows "NewSortQuery g sortByListRaw s = Inr (NoSort g, s)
         \<and> (NoSort_intact g s \<longrightarrow> viewSortQuery s (NoSort g) = Some [])
         \<and> NoSort_intact (fst (initPackage imp s0)) (snd (initPackage imp s0))"
proof -
  have "NewSortQuery g sortByListRaw s = Inr (NoSort g, s)"
    using assms by (auto simp: NewSortQuery_def odd_iff_mod_2_eq_one)
  moreover have "NoSort_intact g s \<longrightarrow> viewSortQuery s (NoSort g) = Some []"
    by (simp add: NoSort_intact_def viewSortQuery_def)
  ultimately show ?thesis
    using initPackage_NoSort_intact[of imp s0] by blast
qed

theorem NewSortQuery_nil_or_odd_witness:
  "load (withTokens [''a'', ''name'', ''d'']) (Slice 1) = Some [''a'', ''name'', ''d'']
   \<and> odd (length [''a'', ''name'', ''d''])
   \<and> NoSort_intact sampleGlobals (withTokens [''a'', ''name'', ''d''])
   \<and> NewSortQuery sampleGlobals (Slice 1) (withTokens [''a'', ''name'', ''d'']) =
       Inr (Ptr 0, withTokens [''a'', ''name'', ''d''])
   \<and> viewSortQuery (withTokens [''a'', ''name'', ''d'']) (Ptr 0) = Some []
   \<and> load sampleStore NilSlice = Some []
   \<and> NoSort_intact sampleGlobals sampleStore
   \<and> NewSortQuery sampleGlobals NilSlice sampleStore = Inr (Ptr 0, sampleStore)
   \<and> viewSortQuery sampleStore (Ptr 0) = Some []"
proof -
  let ?toks = "[''a'', ''name'', ''d'']"
  have h1: "load (withTokens ?toks) (Slice 1) = Some ?toks" by (rule withTokens_load)
  have h2: "Slice 1 = NilSlice \<or> odd (length ?toks)" by simp
  have h3: "NoSort_intact sampleGlobals (withTokens ?toks)" by (rule withTokens_intact)
  have k1: "load sampleStore NilSlice = Some []" by simp
  have k2: "NilSlice = NilSlice \<or> odd (length ([] :: string list))" by simp
  have k3: "NoSort_intact sampleGlobals sampleStore"
    by (simp add: NoSort_intact_def sample_NoSort sampleStore_def sampleInit)
  show ?thesis
    using h1 h3 k1 k3
      NewSortQuery_nil_or_odd[OF h1 h2, of sampleGlobals sampleImports emptyStore]
      NewSortQuery_nil_or_odd[OF k1 k2, of sampleGlobals sampleImports emptyStore]
    by (simp add: sample_NoSort)
qed

text \<open>
  Claim C3.  If some token at an even index is neither \<open>"a"\<close> nor \<open>"d"\<close>,
  \<open>NewSortQuery\<close> returns the pointer held in \<open>NoSort\<close> and leaves the store as it
  was, whatever the pairs before that token are: no error, and no partly built
  \<open>SortQuery\<close>.
\<close>

theorem NewSortQuery_bad_direction:
  assumes "load s sortByListRaw = Some toks"
    and "i < length toks" and "even i"
    and "toks ! i \<noteq> ''a''" and "toks ! i \<noteq> ''d''"
  shows "NewSortQuery g sortByListRaw s = Inr (NoSort g, s)"
proof (cases "sortByListRaw = NilSlice \<or> length toks mod 2 = 1")
  case True
  then show ?thesis using assms(1) by (simp add: NewSortQuery_def)
next
  case False
  then have "even (length toks)" by presburger
  then have "i + 1 < length toks" using assms(2,3) by presburger
  then have "NewSortQuery_loop toks 0 [] = Inr None"
    using NewSortQuery_loop_bad_direction[of 0 i toks "[]"] assms(3,4,5) by simp
  then show ?thesis using False assms(1) by (simp add: NewSortQuery_def)
qed


theorem NewSortQuery_bad_direction_witness:
  "load (withTokens [''a'', ''name'', ''x'', ''age'']) (Slice 1) = Some [''a'', ''name'', ''x'', ''age'']
   \<and> (2::nat) < length [''a'', ''name'', ''x'', ''age''] \<and> even (2::nat)
   \<and> [''a'', ''name'', ''x'', ''age''] ! 2 \<noteq> ''a'' \<and> [''a'', ''name'', ''x'', ''age''] ! 2 \<noteq> ''d''
   \<and> NewSortQuery sampleGlobals (Slice 1) (withTokens [''a'', ''name'', ''x'', ''age'']) =
       Inr (Ptr 0, withTokens [''a'', ''name'', ''x'', ''age''])"
proof -
  let ?toks = "[''a'', ''name'', ''x'', ''age'']"
  have h1: "load (withTokens ?toks) (Slice 1) = Some ?toks" by (rule withTokens_load)
  have h2: "(2::nat) < length ?toks" by simp
  have h3: "even (2::nat)" by simp
  have h4: "?toks ! 2 \<noteq> ''a''" by simp
  have h5: "?toks ! 2 \<noteq> ''d''" by simp
  show ?thesis
    using h1 h2 h4 h5 NewSortQuery_bad_direction[OF h1 h2 h3 h4 h5, of sampleGlobals]
    by (simp add: sample_NoSort)
qed

section \<open>Totality and property names\<close>

text \<open>
  Claim C8.  \<open>NewSortQuery\<close> is total: for the nil slice and for every other slice
  it returns without error or panic, and (\<open>NoSort\<close> being as initialised) what it
  returns is a non-nil pointer to a live \<open>SortQuery\<close>.  For the empty, non-nil
  token list it allocates a new \<open>SortQuery\<close> with an empty \<open>SortByList\<close>, and the
  pointer it returns is not the one held in \<open>NoSort\<close>.
\<close>

theorem NewSortQuery_total:
  assumes "load s sortByListRaw = Some toks"
  shows "(\<exists>p s'. NewSortQuery g sortByListRaw s = Inr (p, s')
            \<and> (NoSort_intact g s \<longrightarrow>
                 (\<exists>a q. p = Ptr a \<and> deref (sortQueries s') p = Some q)))
         \<and> (toks = [] \<and> sortByListRaw \<noteq> NilSlice \<longrightarrow>
              NewSortQuery g sortByListRaw s =
                Inr (Ptr (length (sortQueries s)),
                     s\<lparr>sortQueries := sortQueries s @ [\<lparr>SortByList = []\<rparr>]\<rparr>)
              \<and> (NoSort_intact g s \<longrightarrow> Ptr (length (sortQueries s)) \<noteq> NoSort g))"
proof -
  obtain r where r: "NewSortQuery_loop toks 0 [] = Inr r"
    using NewSortQuery_loop_no_panic by blast
  have valid: "\<exists>n. NoSort g = Ptr n \<and> n < length (sortQueries s)" if "NoSort_intact g s"
    using that by (cases "NoSort g") (auto simp: NoSort_intact_def split: if_splits)
  have "\<exists>p s'. NewSortQuery g sortByListRaw s = Inr (p, s')
            \<and> (NoSort_intact g s \<longrightarrow>
                 (\<exists>a q. p = Ptr a \<and> deref (sortQueries s') p = Some q))"
    using assms r valid
    by (cases r) (auto simp: NewSortQuery_def alloc_SortQuery_def)
  moreover have "toks = [] \<and> sortByListRaw \<noteq> NilSlice \<longrightarrow>
              NewSortQuery g sortByListRaw s =
                Inr (Ptr (length (sortQueries s)),
                     s\<lparr>sortQueries := sortQueries s @ [\<lparr>SortByList = []\<rparr>]\<rparr>)
              \<and> (NoSort_intact g s \<longrightarrow> Ptr (length (sortQueries s)) \<noteq> NoSort g)"
  proof
    assume e: "toks = [] \<and> sortByListRaw \<noteq> NilSlice"
    have "NewSortQuery_loop [] 0 [] = Inr (Some [])"
      by (subst NewSortQuery_loop.simps) simp
    then show "NewSortQuery g sortByListRaw s =
                Inr (Ptr (length (sortQueries s)),
                     s\<lparr>sortQueries := sortQueries s @ [\<lparr>SortByList = []\<rparr>]\<rparr>)
              \<and> (NoSort_intact g s \<longrightarrow> Ptr (length (sortQueries s)) \<noteq> NoSort g)"
      using e assms valid by (auto simp: NewSortQuery_def alloc_SortQuery_def)
  qed
  ultimately show ?thesis by blast
qed

theorem NewSortQuery_total_witness:
  "load (withTokens []) (Slice 1) = Some []
   \<and> NoSort_intact sampleGlobals (withTokens [])
   \<and> NewSortQuery sampleGlobals (Slice 1) (withTokens []) =
       Inr (Ptr 1, (withTokens [])\<lparr>sortQueries := [\<lparr>SortByList = []\<rparr>, \<lparr>SortByList = []\<rparr>]\<rparr>)
   \<and> Ptr 1 \<noteq> NoSort sampleGlobals"
proof -
  have h1: "load (withTokens []) (Slice 1) = Some []" by (rule withTokens_load)
  have h2: "NoSort_intact sampleGlobals (withTokens [])" by (rule withTokens_intact)
  show ?thesis
    using h1 h2 NewSortQuery_total[OF h1, of sampleGlobals]
    by (simp add: withTokens_sortQueries)
qed

text \<open>
  Claim C9.  For a token list made of (direction, property) pairs whose directions
  are \<open>"a"\<close> or \<open>"d"\<close>, the property names of the resulting \<open>SortQuery\<close> are the
  property tokens, whatever strings they are (empty, repeated, unknown to any
  comparator): nothing is checked or dropped.
\<close>

theorem NewSortQuery_any_property:
  assumes "load s (Slice a) = Some (flatten pairs)"
    and "\<forall>(d, p) \<in> set pairs. d = ''a'' \<or> d = ''d''"
  shows "\<exists>s' q. NewSortQuery g (Slice a) s = Inr (Ptr (length (sortQueries s)), s')
           \<and> deref (sortQueries s') (Ptr (length (sortQueries s))) = Some q
           \<and> map Property (SortByList q) = map snd pairs"
proof -
  have ev: "length (flatten pairs) mod 2 = 0"
    by (induction pairs rule: flatten.induct) auto
  have "NewSortQuery_loop ([] @ flatten pairs) (length ([] :: string list)) [] =
          Inr (Some ([] @ map (\<lambda>(d, p). \<lparr>Property = p, Ascending = (d = ''a'')\<rparr>) pairs))"
    by (rule NewSortQuery_loop_flatten[OF assms(2)])
  then have loop: "NewSortQuery_loop (flatten pairs) 0 [] =
          Inr (Some (map (\<lambda>(d, p). \<lparr>Property = p, Ascending = (d = ''a'')\<rparr>) pairs))"
    by simp
  have "map Property (map (\<lambda>(d, p). \<lparr>Property = p, Ascending = (d = ''a'')\<rparr>) pairs) = map snd pairs"
    by (induction pairs) auto
  then show ?thesis
    using assms(1) ev loop by (simp add: NewSortQuery_def alloc_SortQuery_def)
qed

theorem NewSortQuery_any_property_witness:
  "load (withTokens (flatten [(''a'', ''''), (''d'', ''no such property''), (''a'', '''')])) (Slice 1)
     = Some (flatten [(''a'', ''''), (''d'', ''no such property''), (''a'', '''')])
   \<and> list_all (\<lambda>(d, p). d = ''a'' \<or> d = ''d'')
         [(''a'', ''''), (''d'', ''no such property''), (''a'', '''')]
   \<and> (\<exists>s' q. NewSortQuery sampleGlobals (Slice 1)
                 (withTokens (flatten [(''a'', ''''), (''d'', ''no such property''), (''a'', '''')]))
               = Inr (Ptr 1, s')
          \<and> deref (sortQueries s') (Ptr 1) = Some q
          \<and> map Property (SortByList q) = ['''', ''no such property'', ''''])"
proof -
  let ?pairs = "[(''a'', ''''), (''d'', ''no such property''), (''a'', '''')]"
  have h1: "load (withTokens (flatten ?pairs)) (Slice 1) = Some (flatten ?pairs)"
    by (rule withTokens_load)
  have h2: "\<forall>(d, p) \<in> set ?pairs. d = ''a'' \<or> d = ''d''" by simp
  show ?thesis
    using h1 h2 NewSortQuery_any_property[OF h1 h2, of sampleGlobals]
    by (simp add: withTokens_sortQueries)
qed

section \<open>Determinism and the frame of the constructors\<close>

lemma NewSortQuery_result:
  assumes "load s sortByListRaw = Some toks" and "NoSort_intact g s"
  shows "\<exists>p s'. NewSortQuery g sortByListRaw s = Inr (p, s')
           \<and> viewSortQuery s' p =
               Some (if sortByListRaw = NilSlice \<or> length toks mod 2 = 1 then []
                     else (case NewSortQuery_loop toks 0 [] of
                             Inr (Some sortByList) \<Rightarrow> sortByList | _ \<Rightarrow> []))
           \<and> onlyAllocates s s'"
proof -
  obtain r where r: "NewSortQuery_loop toks 0 [] = Inr r"
    using NewSortQuery_loop_no_panic by blast
  have ns: "viewSortQuery s (NoSort g) = Some []"
    using assms(2) by (simp add: viewSortQuery_def NoSort_intact_def)
  have same: "onlyAllocates s s" by (simp add: onlyAllocates_def)
  show ?thesis
  proof (cases "sortByListRaw = NilSlice \<or> length toks mod 2 = 1")
    case True
    then show ?thesis using assms(1) ns same by (simp add: NewSortQuery_def)
  next
    case False
    show ?thesis
    proof (cases r)
      case None
      then show ?thesis using False assms(1) ns same r by (simp add: NewSortQuery_def)
    next
      case (Some sortByList)
      then show ?thesis
        using False assms(1) r
        by (simp add: NewSortQuery_def alloc_SortQuery_def viewSortQuery_def onlyAllocates_def)
    qed
  qed
qed

lemma load_cong: "strings s' = strings s \<Longrightarrow> load s' sl = load s sl"
  by (cases sl) simp_all

lemma load_update:
  "load (s\<lparr>sortQueries := a\<rparr>) sl = load s sl"
  "load (s\<lparr>metricQueries := b\<rparr>) sl = load s sl"
  "load (s\<lparr>dataSelectQueries := c\<rparr>) sl = load s sl"
  by (cases sl; simp)+

lemma NewMetricQuery_result:
  "NewMetricQuery metricNames aggregations s = (p, s') \<Longrightarrow>
   viewMetricQuery s' p = Some (viewSlice s metricNames, aggregations) \<and> onlyAllocates s s'"
  by (auto simp: NewMetricQuery_def alloc_MetricQuery_def viewMetricQuery_def viewSlice_def
      onlyAllocates_def load_update)

lemma NewDataSelectQuery_result:
  "NewDataSelectQuery paginationQuery sortQuery graphQuery s = (p, s') \<Longrightarrow>
   viewDataSelectQuery s' p =
     Some (paginationQuery, viewSortQuery s sortQuery, viewMetricQuery s graphQuery)
   \<and> onlyAllocates s s'"
  by (auto simp: NewDataSelectQuery_def alloc_DataSelectQuery_def viewDataSelectQuery_def
      viewSortQuery_def viewMetricQuery_def viewSlice_def onlyAllocates_def load_update)

lemma otherStore_eq:
  "otherStore =
     \<lparr>strings = [[''cpu usage'', ''memory usage''], [''memory usage''],
                 [''a'', ''name'', ''d'', ''age'']],
      sortQueries = [\<lparr>SortByList = []\<rparr>],
      metricQueries =
        [\<lparr>MetricNames = NilSlice, Aggregations = None\<rparr>,
         \<lparr>MetricNames = Slice 0, Aggregations = Some [''sum'']\<rparr>],
      dataSelectQueries =
        [\<lparr>PaginationQuery = Ptr 0, SortQuery = Ptr 0, MetricQuery = Ptr 0\<rparr>,
         \<lparr>PaginationQuery = Ptr 0, SortQuery = Ptr 0, MetricQuery = Ptr 1\<rparr>,
         \<lparr>PaginationQuery = Ptr 1, SortQuery = Ptr 0, MetricQuery = Ptr 0\<rparr>,
         \<lparr>PaginationQuery = Ptr 1, SortQuery = Ptr 0, MetricQuery = Ptr 1\<rparr>]\<rparr>"
  by (simp add: otherStore_def sampleStore_def sampleInit alloc_strings_def)

lemma withTokens_eq:
  "withTokens toks =
     \<lparr>strings = [[''cpu usage'', ''memory usage''], toks],
      sortQueries = [\<lparr>SortByList = []\<rparr>],
      metricQueries =
        [\<lparr>MetricNames = NilSlice, Aggregations = None\<rparr>,
         \<lparr>MetricNames = Slice 0, Aggregations = Some [''sum'']\<rparr>],
      dataSelectQueries =
        [\<lparr>PaginationQuery = Ptr 0, SortQuery = Ptr 0, MetricQuery = Ptr 0\<rparr>,
         \<lparr>PaginationQuery = Ptr 0, SortQuery = Ptr 0, MetricQuery = Ptr 1\<rparr>,
         \<lparr>PaginationQuery = Ptr 1, SortQuery = Ptr 0, MetricQuery = Ptr 0\<rparr>,
         \<lparr>PaginationQuery = Ptr 1, SortQuery = Ptr 0, MetricQuery = Ptr 1\<rparr>]\<rparr>"
  by (simp add: withTokens_def sampleStore_def sampleInit alloc_strings_def)

text \<open>
  Claim C10.  \<open>NewSortQuery\<close>, \<open>NewMetricQuery\<close> and \<open>NewDataSelectQuery\<close> are
  deterministic and free of side effects: called in two stores on arguments that
  are equal by structure they return results that are equal by structure, and the
  store after a call differs from the store before it only by the objects the
  call has allocated; in particular the token array given to \<open>NewSortQuery\<close> is
  unchanged.
\<close>

theorem constructors_deterministic:
  assumes "load s1 toks1 = Some toks" and "load s2 toks2 = Some toks"
    and "(toks1 = NilSlice) = (toks2 = NilSlice)"
    and "NoSort_intact g1 s1" and "NoSort_intact g2 s2"
    and "viewSlice s1 names1 = viewSlice s2 names2"
    and "viewSortQuery s1 sq1 = viewSortQuery s2 sq2"
    and "viewMetricQuery s1 mq1 = viewMetricQuery s2 mq2"
  shows "(\<exists>p1 s1' p2 s2'.
            NewSortQuery g1 toks1 s1 = Inr (p1, s1') \<and> NewSortQuery g2 toks2 s2 = Inr (p2, s2')
          \<and> viewSortQuery s1' p1 = viewSortQuery s2' p2 \<and> viewSortQuery s1' p1 \<noteq> None
          \<and> onlyAllocates s1 s1' \<and> load s1' toks1 = Some toks)
       \<and> (\<exists>p1 s1' p2 s2'.
            NewMetricQuery names1 aggregations s1 = (p1, s1')
          \<and> NewMetricQuery names2 aggregations s2 = (p2, s2')
          \<and> viewMetricQuery s1' p1 = viewMetricQuery s2' p2 \<and> viewMetricQuery s1' p1 \<noteq> None
          \<and> onlyAllocates s1 s1')
       \<and> (\<exists>p1 s1' p2 s2'.
            NewDataSelectQuery pq sq1 mq1 s1 = (p1, s1')
          \<and> NewDataSelectQuery pq sq2 mq2 s2 = (p2, s2')
          \<and> viewDataSelectQuery s1' p1 = viewDataSelectQuery s2' p2
          \<and> viewDataSelectQuery s1' p1 \<noteq> None
          \<and> onlyAllocates s1 s1')"
proof -
  obtain p1 s1' where a1: "NewSortQuery g1 toks1 s1 = Inr (p1, s1')"
      "viewSortQuery s1' p1 =
               Some (if toks1 = NilSlice \<or> length toks mod 2 = 1 then []
                     else (case NewSortQuery_loop toks 0 [] of
                             Inr (Some sortByList) \<Rightarrow> sortByList | _ \<Rightarrow> []))"
      "onlyAllocates s1 s1'"
    using NewSortQuery_result[OF assms(1,4)] by blast
  obtain p2 s2' where a2: "NewSortQuery g2 toks2 s2 = Inr (p2, s2')"
      "viewSortQuery s2' p2 =
               Some (if toks2 = NilSlice \<or> length toks mod 2 = 1 then []
                     else (case NewSortQuery_loop toks 0 [] of
                             Inr (Some sortByList) \<Rightarrow> sortByList | _ \<Rightarrow> []))"
    using NewSortQuery_result[OF assms(2,5)] by blast
  have "load s1' toks1 = Some toks"
    using a1(3) assms(1) load_cong[of s1' s1 toks1] by (simp add: onlyAllocates_def)
  then have A: "\<exists>p1 s1' p2 s2'.
            NewSortQuery g1 toks1 s1 = Inr (p1, s1') \<and> NewSortQuery g2 toks2 s2 = Inr (p2, s2')
          \<and> viewSortQuery s1' p1 = viewSortQuery s2' p2 \<and> viewSortQuery s1' p1 \<noteq> None
          \<and> onlyAllocates s1 s1' \<and> load s1' toks1 = Some toks"
    using a1 a2 assms(3) by auto
  have B: "\<exists>p1 s1' p2 s2'.
            NewMetricQuery names1 aggregations s1 = (p1, s1')
          \<and> NewMetricQuery names2 aggregations s2 = (p2, s2')
          \<and> viewMetricQuery s1' p1 = viewMetricQuery s2' p2 \<and> viewMetricQuery s1' p1 \<noteq> None
          \<and> onlyAllocates s1 s1'"
    using NewMetricQuery_result[of names1 aggregations s1]
      NewMetricQuery_result[of names2 aggregations s2] assms(6)
    by (cases "NewMetricQuery names1 aggregations s1"; cases "NewMetricQuery names2 aggregations s2")
       auto
  have C: "\<exists>p1 s1' p2 s2'.
            NewDataSelectQuery pq sq1 mq1 s1 = (p1, s1')
          \<and> NewDataSelectQuery pq sq2 mq2 s2 = (p2, s2')
          \<and> viewDataSelectQuery s1' p1 = viewDataSelectQuery s2' p2
          \<and> viewDataSelectQuery s1' p1 \<noteq> None
          \<and> onlyAllocates s1 s1'"
    using NewDataSelectQuery_result[of pq sq1 mq1 s1]
      NewDataSelectQuery_result[of pq sq2 mq2 s2] assms(7,8)
    by (cases "NewDataSelectQuery pq sq1 mq1 s1"; cases "NewDataSelectQuery pq sq2 mq2 s2")
       auto
  show ?thesis using A B C by blast
qed


theorem constructors_deterministic_witness:
  "load (withTokens [''a'', ''name'', ''d'', ''age'']) (Slice 1) = Some [''a'', ''name'', ''d'', ''age'']
   \<and> load otherStore (Slice 2) = Some [''a'', ''name'', ''d'', ''age'']
   \<and> NoSort_intact sampleGlobals (withTokens [''a'', ''name'', ''d'', ''age''])
   \<and> NoSort_intact sampleGlobals otherStore
   \<and> viewSlice (withTokens [''a'', ''name'', ''d'', ''age'']) (Slice 0) = viewSlice otherStore (Slice 0)
   \<and> viewSortQuery (withTokens [''a'', ''name'', ''d'', ''age'']) (Ptr 0) = viewSortQuery otherStore (Ptr 0)
   \<and> viewMetricQuery (withTokens [''a'', ''name'', ''d'', ''age'']) (Ptr 1) = viewMetricQuery otherStore (Ptr 1)
   \<and> (\<exists>p1 s1' p2 s2'.
         NewSortQuery sampleGlobals (Slice 1) (withTokens [''a'', ''name'', ''d'', ''age'']) = Inr (p1, s1')
       \<and> NewSortQuery sampleGlobals (Slice 2) otherStore = Inr (p2, s2')
       \<and> viewSortQuery s1' p1 = viewSortQuery s2' p2 \<and> viewSortQuery s1' p1 \<noteq> None
       \<and> onlyAllocates (withTokens [''a'', ''name'', ''d'', ''age'']) s1'
       \<and> load s1' (Slice 1) = Some [''a'', ''name'', ''d'', ''age''])
   \<and> (\<exists>p1 s1' p2 s2'.
         NewMetricQuery (Slice 0) (Some [''sum'']) (withTokens [''a'', ''name'', ''d'', ''age'']) = (p1, s1')
       \<and> NewMetricQuery (Slice 0) (Some [''sum'']) otherStore = (p2, s2')
       \<and> viewMetricQuery s1' p1 = viewMetricQuery s2' p2 \<and> viewMetricQuery s1' p1 \<noteq> None
       \<and> onlyAllocates (withTokens [''a'', ''name'', ''d'', ''age'']) s1')
   \<and> (\<exists>p1 s1' p2 s2'.
         NewDataSelectQuery (Ptr 1) (Ptr 0) (Ptr 1) (withTokens [''a'', ''name'', ''d'', ''age'']) = (p1, s1')
       \<and> NewDataSelectQuery (Ptr 1) (Ptr 0) (Ptr 1) otherStore = (p2, s2')
       \<and> viewDataSelectQuery s1' p1 = viewDataSelectQuery s2' p2
       \<and> viewDataSelectQuery s1' p1 \<noteq> None
       \<and> onlyAllocates (withTokens [''a'', ''name'', ''d'', ''age'']) s1')"
proof -
  let ?toks = "[''a'', ''name'', ''d'', ''age'']"
  have h1: "load (withTokens ?toks) (Slice 1) = Some ?toks" by (rule withTokens_load)
  have h2: "load otherStore (Slice 2) = Some ?toks" by (simp add: otherStore_eq)
  have h3: "(Slice 1 = NilSlice) = (Slice 2 = NilSlice)" by simp
  have h4: "NoSort_intact sampleGlobals (withTokens ?toks)" by (rule withTokens_intact)
  have h5: "NoSort_intact sampleGlobals otherStore"
    by (simp add: NoSort_intact_def sample_NoSort otherStore_eq)
  have h6: "viewSlice (withTokens ?toks) (Slice 0) = viewSlice otherStore (Slice 0)"
    by (simp add: viewSlice_def otherStore_eq withTokens_eq)
  have h7: "viewSortQuery (withTokens ?toks) (Ptr 0) = viewSortQuery otherStore (Ptr 0)"
    by (simp add: viewSortQuery_def otherStore_eq withTokens_eq)
  have h8: "viewMetricQuery (withTokens ?toks) (Ptr 1) = viewMetricQuery otherStore (Ptr 1)"
    by (simp add: viewMetricQuery_def viewSlice_def otherStore_eq withTokens_eq)
  note c = constructors_deterministic[OF h1 h2 h3 h4 h5 h6 h7 h8, of "Some [''sum'']" "Ptr 1"]
  show ?thesis
    using h1 h2 h4 h5 h6 h7 h8 c by blast
qed

section \<open>The presets\<close>

text \<open>
  Claim C6.  \<open>NewDataSelectQuery(p, s, m)\<close> returns a new \<open>DataSelectQuery\<close> whose
  three fields are exactly \<open>p\<close>, \<open>s\<close> and \<open>m\<close>; after package initialisation the
  four presets hold exactly the advertised sub-queries.
\<close>

theorem NewDataSelectQuery_fields_and_presets:
  "(case NewDataSelectQuery p sq m s of
      (r, s') \<Rightarrow>
        deref (dataSelectQueries s') r =
          Some \<lparr>PaginationQuery = p, SortQuery = sq, MetricQuery = m\<rparr>)
   \<and> (case initPackage imp s0 of
        (g, s) \<Rightarrow>
          deref (dataSelectQueries s) (NoDataSelect g) =
            Some \<lparr>PaginationQuery = NoPagination imp, SortQuery = NoSort g,
                  MetricQuery = NoMetrics g\<rparr>
        \<and> deref (dataSelectQueries s) (DefaultDataSelect g) =
            Some \<lparr>PaginationQuery = DefaultPagination imp, SortQuery = NoSort g,
                  MetricQuery = NoMetrics g\<rparr>
        \<and> deref (dataSelectQueries s) (StdMetricsDataSelect g) =
            Some \<lparr>PaginationQuery = NoPagination imp, SortQuery = NoSort g,
                  MetricQuery = StandardMetrics g\<rparr>
        \<and> deref (dataSelectQueries s) (DefaultDataSelectWithMetrics g) =
            Some \<lparr>PaginationQuery = DefaultPagination imp, SortQuery = NoSort g,
                  MetricQuery = StandardMetrics g\<rparr>)"
  by (simp add: initPackage_def NewMetricQuery_def NewDataSelectQuery_def
      alloc_MetricQuery_def alloc_DataSelectQuery_def alloc_SortQuery_def alloc_strings_def
      split_def Let_def nth_append)

text \<open>
  Claim C7.  After package initialisation \<open>StandardMetrics\<close> asks for exactly the
  two metric names \<open>common.CpuUsage\<close> and \<open>common.MemoryUsage\<close> with
  \<open>metric.OnlySumAggregation\<close> as its aggregations, and \<open>NoMetrics\<close> has the nil
  metric-name list and nil aggregations; the metric stage run on \<open>NoMetrics\<close> makes
  no external call and returns no metrics.
\<close>

theorem StandardMetrics_and_NoMetrics:
  "(case initPackage imp s0 of
      (g, s) \<Rightarrow>
        (\<exists>q. deref (metricQueries s) (StandardMetrics g) = Some q
            \<and> load s (MetricNames q) = Some [CpuUsage imp, MemoryUsage imp]
            \<and> Aggregations q = OnlySumAggregation imp)
      \<and> deref (metricQueries s) (NoMetrics g) =
          Some \<lparr>MetricNames = NilSlice, Aggregations = None\<rparr>
      \<and> runMetricQuery fetchSeries registry sumAggregation s items (NoMetrics g) =
          Inr (Metrics [], []))"
  by (simp add: initPackage_def NewMetricQuery_def NewDataSelectQuery_def
      alloc_MetricQuery_def alloc_DataSelectQuery_def alloc_SortQuery_def alloc_strings_def
      split_def Let_def nth_append runMetricQuery_def metricStage_def)

section \<open>Out-of-range pages\<close>

lemma paginate_second_page:
  "paginate [1, 2, 3, 4, 5, 6, 7, 8, 9, 10, 11, 12 :: nat] \<lparr>itemsPerPage = 10, page = 2\<rparr>
     = Inr ([11, 12], 12)"
  by (simp add: paginate_def sliceOf_def Let_def)

text \<open>
  Claim C4.  With \<open>itemsPerPage > 0\<close> and \<open>(page-1) * itemsPerPage\<close> at least the
  length of the sequence, the pagination stage returns the empty page, reports the
  full length as \<open>totalItems\<close>, and does not fail.
\<close>

theorem paginate_out_of_range:
  assumes "itemsPerPage pq > 0"
    and "(page pq - 1) * itemsPerPage pq \<ge> int (length sequence)"
  shows "paginate sequence pq = Inr ([], int (length sequence))"
  using assms by (simp add: paginate_def Let_def)

theorem paginate_out_of_range_witness:
  "itemsPerPage \<lparr>itemsPerPage = 10, page = 3\<rparr> > 0
   \<and> (page \<lparr>itemsPerPage = 10, page = 3\<rparr> - 1) * itemsPerPage \<lparr>itemsPerPage = 10, page = 3\<rparr>
       \<ge> int (length [1, 2, 3, 4, 5, 6, 7, 8, 9, 10, 11, 12 :: nat])
   \<and> paginate [1, 2, 3, 4, 5, 6, 7, 8, 9, 10, 11, 12 :: nat] \<lparr>itemsPerPage = 10, page = 3\<rparr>
       = Inr ([], 12)"
proof -
  let ?pq = "\<lparr>itemsPerPage = 10, page = 3\<rparr>"
  let ?xs = "[1, 2, 3, 4, 5, 6, 7, 8, 9, 10, 11, 12 :: nat]"
  have h1: "itemsPerPage ?pq > 0" by simp
  have h2: "(page ?pq - 1) * itemsPerPage ?pq \<ge> int (length ?xs)" by simp
  show ?thesis
    using h1 h2 paginate_out_of_range[OF h1 h2] by simp
qed

section \<open>Stability of the sort stage\<close>

lemma compareBy_zero_iff:
  "compareBy propertyValue sb x y = 0 \<longleftrightarrow>
   propertyValue x (Property sb) = propertyValue y (Property sb)"
  by (auto simp: compareBy_def Let_def split: option.splits)

lemma compareBy_cong:
  "propertyValue x (Property sb) = propertyValue x' (Property sb) \<Longrightarrow>
   compareBy propertyValue sb x y = compareBy propertyValue sb x' y"
  by (simp add: compareBy_def)

lemma compareAll_cong:
  "\<forall>sb \<in> set sbs. propertyValue x (Property sb) = propertyValue x' (Property sb) \<Longrightarrow>
   compareAll propertyValue sbs x y = compareAll propertyValue sbs x' y"
  by (induction sbs) (auto simp: Let_def compareBy_cong[of propertyValue x _ x'])

lemma compareAll_equal:
  "\<forall>sb \<in> set sbs. propertyValue x (Property sb) = propertyValue y (Property sb) \<Longrightarrow>
   compareAll propertyValue sbs x y = 0"
  by (induction sbs) (auto simp: Let_def compareBy_zero_iff)

lemma equalUnderAll_iff:
  "equalUnderAll propertyValue q x y \<longleftrightarrow>
   (\<forall>sb \<in> set (SortByList q). propertyValue x (Property sb) = propertyValue y (Property sb))"
  by (simp add: equalUnderAll_def list_all_iff compareBy_zero_iff)

lemma filter_insertItem_out:
  "\<not> P x \<Longrightarrow> filter P (insertItem cmp x ys) = filter P ys"
  by (induction ys) auto

lemma filter_insertItem_in:
  "P x \<Longrightarrow> \<forall>y \<in> set ys. P y \<longrightarrow> cmp x y \<le> 0 \<Longrightarrow>
   filter P (insertItem cmp x ys) = x # filter P ys"
  by (induction ys) auto

lemma set_insertItem: "set (insertItem cmp x ys) = insert x (set ys)"
  by (induction ys) auto

lemma set_stableSort: "set (stableSort cmp xs) = set xs"
  by (induction xs) (auto simp: set_insertItem)

lemma length_insertItem: "length (insertItem cmp x ys) = Suc (length ys)"
  by (induction ys) auto

lemma length_stableSort: "length (stableSort cmp xs) = length xs"
  by (induction xs) (auto simp: length_insertItem)

lemma compareBy_antisym:
  "compareBy propertyValue sb y x = - compareBy propertyValue sb x y"
  by (auto simp: compareBy_def Let_def split: option.splits)

lemma compareBy_trans:
  "compareBy propertyValue sb x y \<le> 0 \<Longrightarrow> compareBy propertyValue sb y z \<le> 0 \<Longrightarrow>
   compareBy propertyValue sb x z \<le> 0
   \<and> (compareBy propertyValue sb x z = 0 \<longrightarrow>
        compareBy propertyValue sb x y = 0 \<and> compareBy propertyValue sb y z = 0)"
  by (auto simp: compareBy_def Let_def split: option.splits if_splits)

lemma compareAll_antisym:
  "compareAll propertyValue sbs y x = - compareAll propertyValue sbs x y"
  by (induction sbs) (auto simp: Let_def compareBy_antisym[of propertyValue _ y x])

lemma compareAll_trans:
  "compareAll propertyValue sbs x y \<le> 0 \<Longrightarrow> compareAll propertyValue sbs y z \<le> 0 \<Longrightarrow>
   compareAll propertyValue sbs x z \<le> 0"
proof (induction sbs)
  case Nil
  show ?case by simp
next
  case (Cons sb sbs)
  have xy: "compareBy propertyValue sb x y \<le> 0"
    using Cons.prems(1) by (auto simp: Let_def split: if_splits)
  have yz: "compareBy propertyValue sb y z \<le> 0"
    using Cons.prems(2) by (auto simp: Let_def split: if_splits)
  note t = compareBy_trans[OF xy yz]
  show ?case
  proof (cases "compareBy propertyValue sb x z = 0")
    case True
    then have "compareBy propertyValue sb x y = 0" "compareBy propertyValue sb y z = 0"
      using t by auto
    then show ?thesis using True Cons by (simp add: Let_def)
  next
    case False
    then show ?thesis using t by (simp add: Let_def)
  qed
qed

lemma sorted_insertItem:
  assumes tot: "\<And>x y. cmp y x = - cmp x y"
    and tr: "\<And>x y z. cmp x y \<le> 0 \<Longrightarrow> cmp y z \<le> 0 \<Longrightarrow> cmp x z \<le> 0"
  shows "sorted_wrt (\<lambda>x y. cmp x y \<le> 0) ys \<Longrightarrow>
         sorted_wrt (\<lambda>x y. cmp x y \<le> 0) (insertItem cmp x ys)"
proof (induction ys)
  case Nil
  show ?case by simp
next
  case (Cons y ys)
  show ?case
  proof (cases "cmp x y \<le> 0")
    case True
    then have "\<forall>z \<in> set ys. cmp x z \<le> 0" using Cons.prems tr by auto
    then show ?thesis using True Cons.prems by simp
  next
    case False
    then have "cmp y x \<le> 0" using tot[of x y] by simp
    then show ?thesis using False Cons by (auto simp: set_insertItem)
  qed
qed

lemma sorted_stableSort:
  "sorted_wrt (\<lambda>x y. compareAll propertyValue sbs x y \<le> 0)
     (stableSort (compareAll propertyValue sbs) items)"
proof (induction items)
  case Nil
  show ?case by simp
next
  case (Cons x xs)
  show ?case
    using Cons sorted_insertItem[of "compareAll propertyValue sbs", OF compareAll_antisym compareAll_trans]
    by simp
qed

lemma stableSort_stable:
  "filter (equalUnderAll propertyValue q z)
     (stableSort (compareAll propertyValue (SortByList q)) items) =
   filter (equalUnderAll propertyValue q z) items"
proof (induction items)
  case Nil
  show ?case by simp
next
  case (Cons x xs)
  let ?P = "equalUnderAll propertyValue q z"
  let ?cmp = "compareAll propertyValue (SortByList q)"
  show ?case
  proof (cases "?P x")
    case False
    then show ?thesis using Cons.IH by (simp add: filter_insertItem_out)
  next
    case True
    have "\<forall>y \<in> set (stableSort ?cmp xs). ?P y \<longrightarrow> ?cmp x y \<le> 0"
    proof (intro ballI impI)
      fix y assume "?P y"
      with True have "\<forall>sb \<in> set (SortByList q).
          propertyValue x (Property sb) = propertyValue y (Property sb)"
        by (simp add: equalUnderAll_iff)
      then show "?cmp x y \<le> 0" by (simp add: compareAll_equal)
    qed
    then have "filter ?P (insertItem ?cmp x (stableSort ?cmp xs)) = x # filter ?P (stableSort ?cmp xs)"
      using True by (rule filter_insertItem_in[rotated])
    then show ?thesis using True Cons.IH by simp
  qed
qed

lemma sample_sorted:
  "sortStage sampleProperty [(2, 1), (1, 5), (2, 0), (1, 3)]
       \<lparr>SortByList = [\<lparr>Property = ''x'', Ascending = True\<rparr>]\<rparr>
    = [(1, 5), (1, 3), (2, 1), (2, 0)]"
  by (simp add: sortStage_def compareBy_def sampleProperty_def)

lemma sample_sorted_desc:
  "sortStage sampleProperty [(2, 1), (1, 5), (2, 0), (1, 3)]
       \<lparr>SortByList = [\<lparr>Property = ''x'', Ascending = False\<rparr>, \<lparr>Property = ''y'', Ascending = True\<rparr>]\<rparr>
    = [(2, 0), (2, 1), (1, 3), (1, 5)]"
  by (simp add: sortStage_def compareBy_def sampleProperty_def)

lemma sample_sorted_unknown:
  "sortStage sampleProperty [(2, 1), (1, 5), (2, 0), (1, 3)]
       \<lparr>SortByList = [\<lparr>Property = ''z'', Ascending = False\<rparr>]\<rparr>
    = [(2, 1), (1, 5), (2, 0), (1, 3)]"
  by (simp add: sortStage_def compareBy_def sampleProperty_def)

text \<open>
  Claim C5.  The sort stage is stable: for every item \<open>z\<close>, the items that compare
  equal to \<open>z\<close> under every \<open>SortBy\<close> entry of the query stand in the output in the
  order they had in the input; and with the empty \<open>SortQuery\<close> the output is the
  input.
\<close>

theorem sortStage_stable:
  "filter (equalUnderAll propertyValue q z) (sortStage propertyValue items q) =
     filter (equalUnderAll propertyValue q z) items
   \<and> sortStage propertyValue items \<lparr>SortByList = []\<rparr> = items"
  by (simp add: sortStage_def stableSort_stable)

theorem sortStage_stable_witness:
  "filter (equalUnderAll sampleProperty \<lparr>SortByList = [\<lparr>Property = ''x'', Ascending = True\<rparr>]\<rparr> (1, 0))
     (sortStage sampleProperty [(2, 1), (1, 5), (2, 0), (1, 3)]
        \<lparr>SortByList = [\<lparr>Property = ''x'', Ascending = True\<rparr>]\<rparr>)
   = [(1, 5), (1, 3)]"
proof -
  have "filter (equalUnderAll sampleProperty \<lparr>SortByList = [\<lparr>Property = ''x'', Ascending = True\<rparr>]\<rparr> (1, 0))
     [(2, 1), (1, 5), (2, 0), (1, 3)] = [(1, 5), (1, 3)]"
    by (simp add: equalUnderAll_def compareBy_def sampleProperty_def)
  then show ?thesis
    using sortStage_stable[of sampleProperty
        "\<lparr>SortByList = [\<lparr>Property = ''x'', Ascending = True\<rparr>]\<rparr>" "(1, 0)"
        "[(2, 1), (1, 5), (2, 0), (1, 3)]"]
    by simp
qed

end
